theory Spec2Isabelle
  imports Complex_Main
begin

chapter \<open>Mesh text parser (OBJLoader) and orbit camera controller (OrbitControls)\<close>

text \<open>
  Numbers. The program computes with IEEE doubles. The embedding computes with
  mathematical reals: a finite double is read as the real it denotes, and rounding and
  overflow are not modelled. The special values are kept where the program hands them
  on. In the parser these are \<open>NaN\<close> (what \<open>parseFloat\<close> returns on a token with no
  digits, and what a \<open>Float32Array\<close> stores for \<open>undefined\<close>) and \<open>undefined\<close> itself (an
  array read out of range), which is \<open>None\<close>. In the controller these are the limits that
  are \<open>\<plusminus>Infinity\<close> by default, and the numbers that a dolly computes (the quotient of
  the finger distances, its power, the scale, the zoom), which are of the type
  \<open>number\<close>: a real, \<open>\<plusminus>Infinity\<close> or \<open>NaN\<close>. Where another number of the state is not
  finite in the program (a pan or rotation distance that is a quotient by zero), the
  model says so and stops. The sign of zero is not modelled.
\<close>

section \<open>OBJLoader: strings, regular expressions, number parsing\<close>

datatype num = NaN | Num real

text \<open>
  Strings are lists of code units below 256. The white space of \<open>\s\<close> and of
  \<open>String.prototype.trim\<close> in that range: tab, line feed, vertical tab, form feed,
  carriage return, space and the no-break space.
\<close>

definition isSpace :: "char \<Rightarrow> bool" where
  "isSpace c \<longleftrightarrow> c \<in> set [CHR 0x09, CHR 0x0A, CHR 0x0B, CHR 0x0C, CHR 0x0D, CHR 0x20, CHR 0xA0]"

definition isDigit :: "char \<Rightarrow> bool" where
  "isDigit c \<longleftrightarrow> c \<in> set ''0123456789''"

text \<open>The character class \<open>[\d|\.|\+|\-|e|E]\<close> of the three number patterns; the bar is a member.\<close>

definition isNumChar :: "char \<Rightarrow> bool" where
  "isNumChar c \<longleftrightarrow> isDigit c \<or> c \<in> set ''|.+-eE''"

definition trim :: "string \<Rightarrow> string" where
  "trim s = rev (dropWhile isSpace (rev (dropWhile isSpace s)))"

text \<open>\<open>text.split('\n')\<close>: the empty text gives one empty line.\<close>

fun split_lines :: "string \<Rightarrow> string list" where
  "split_lines [] = [ [] ]"
| "split_lines (c # cs) =
     (if c = CHR 0x0A then [] # split_lines cs
      else (case split_lines cs of [] \<Rightarrow> [ [c] ] | l # ls \<Rightarrow> (c # l) # ls))"

definition startsWith :: "string \<Rightarrow> string \<Rightarrow> bool" where
  "startsWith line p \<longleftrightarrow> take (length p) line = p"

text \<open>
  The number patterns are \<open>^v\<close>, \<open>^vn\<close> or \<open>^vt\<close> followed by groups \<open>\s+([\<dots>]+)\<close>.
  White space and the class are disjoint, so the greedy match of the expression is the
  only one: each run is taken whole. \<open>numGroups n s\<close> matches \<open>n\<close> such groups at the
  start of \<open>s\<close> and returns the captured tokens.
\<close>

fun numGroups :: "nat \<Rightarrow> string \<Rightarrow> string list option" where
  "numGroups 0 s = Some []"
| "numGroups (Suc n) s =
     (if takeWhile isSpace s = [] then None
      else let r = dropWhile isSpace s in
        if takeWhile isNumChar r = [] then None
        else (case numGroups n (dropWhile isNumChar r) of
                None \<Rightarrow> None
              | Some ts \<Rightarrow> Some (takeWhile isNumChar r # ts)))"

definition vertexPattern :: "string \<Rightarrow> string list option" where
  "vertexPattern line = (if startsWith line ''v'' then numGroups 3 (drop 1 line) else None)"

definition normalPattern :: "string \<Rightarrow> string list option" where
  "normalPattern line = (if startsWith line ''vn'' then numGroups 3 (drop 2 line) else None)"

definition uvPattern :: "string \<Rightarrow> string list option" where
  "uvPattern line = (if startsWith line ''vt'' then numGroups 2 (drop 2 line) else None)"

text \<open>
  The face pattern: \<open>^f\<close>, three corners \<open>\s+(-?\d+)\/(-?\d+)\/(-?\d+)\<close> and an optional
  fourth. \<open>intToken\<close> matches \<open>(-?\d+)\<close> and returns the capture and the rest.
\<close>

definition intToken :: "string \<Rightarrow> (string \<times> string) option" where
  "intToken s =
     (let body = (if startsWith s ''-'' then drop 1 s else s) in
      if takeWhile isDigit body = [] then None
      else Some ((if startsWith s ''-'' then ''-'' else []) @ takeWhile isDigit body,
                 dropWhile isDigit body))"

definition slash :: "string \<Rightarrow> string option" where
  "slash s = (if startsWith s ''/'' then Some (drop 1 s) else None)"

text \<open>One corner \<open>\s+(-?\d+)\/(-?\d+)\/(-?\d+)\<close>: the three captures and the rest.\<close>

definition corner :: "string \<Rightarrow> ((string \<times> string \<times> string) \<times> string) option" where
  "corner s =
     (if takeWhile isSpace s = [] then None
      else case intToken (dropWhile isSpace s) of None \<Rightarrow> None | Some (a, r1) \<Rightarrow>
        (case slash r1 of None \<Rightarrow> None | Some r2 \<Rightarrow>
        (case intToken r2 of None \<Rightarrow> None | Some (b, r3) \<Rightarrow>
        (case slash r3 of None \<Rightarrow> None | Some r4 \<Rightarrow>
        (case intToken r4 of None \<Rightarrow> None | Some (c, r5) \<Rightarrow> Some ((a, b, c), r5))))))"

text \<open>
  The result of \<open>facePattern.exec\<close>: the capture groups 1 to 12 as corners of three.
  Groups 10 to 12 belong to the optional part and are undefined together; the result
  then has three corners, otherwise four.
\<close>

definition facePattern :: "string \<Rightarrow> (string \<times> string \<times> string) list option" where
  "facePattern line =
     (if \<not> startsWith line ''f'' then None
      else case corner (drop 1 line) of None \<Rightarrow> None | Some (c1, r1) \<Rightarrow>
        (case corner r1 of None \<Rightarrow> None | Some (c2, r2) \<Rightarrow>
        (case corner r2 of None \<Rightarrow> None | Some (c3, r3) \<Rightarrow>
        (case corner r3 of None \<Rightarrow> Some [c1, c2, c3]
                         | Some (c4, r4) \<Rightarrow> Some [c1, c2, c3, c4]))))"

definition digitVal :: "char \<Rightarrow> nat" where
  "digitVal c = of_char c - 48"

definition digitsVal :: "string \<Rightarrow> nat" where
  "digitsVal ds = foldl (\<lambda>acc c. 10 * acc + digitVal c) 0 ds"

text \<open>\<open>parseInt\<close> on a capture of \<open>(-?\d+)\<close>: an optional minus sign and decimal digits.\<close>

definition parseInt :: "string \<Rightarrow> int" where
  "parseInt s =
     (if startsWith s ''-'' then - int (digitsVal (takeWhile isDigit (drop 1 s)))
      else int (digitsVal (takeWhile isDigit s)))"

definition pow10 :: "int \<Rightarrow> real" where
  "pow10 e = (if 0 \<le> e then 10 ^ nat e else 1 / 10 ^ nat (- e))"

text \<open>
  \<open>parseFloat\<close>: the longest prefix that is a decimal literal (sign, digits, fraction,
  exponent); what follows is ignored; \<open>NaN\<close> when there is no digit. An exponent
  marker counts only when a digit follows it.
\<close>

definition parseFloat :: "string \<Rightarrow> num" where
  "parseFloat s =
     (let neg = startsWith s ''-'';
          s1 = (if startsWith s ''-'' \<or> startsWith s ''+'' then drop 1 s else s);
          ip = takeWhile isDigit s1;
          r1 = dropWhile isDigit s1;
          fp = (if startsWith r1 ''.'' then takeWhile isDigit (drop 1 r1) else []);
          r2 = (if startsWith r1 ''.'' then dropWhile isDigit (drop 1 r1) else r1);
          e1 = (if startsWith r2 ''e'' \<or> startsWith r2 ''E'' then drop 1 r2 else []);
          eneg = startsWith e1 ''-'';
          e2 = (if startsWith e1 ''-'' \<or> startsWith e1 ''+'' then drop 1 e1 else e1);
          ex = int (digitsVal (takeWhile isDigit e2));
          m = real (digitsVal ip) + real (digitsVal fp) / 10 ^ length fp
      in if ip = [] \<and> fp = [] then NaN
         else Num ((if neg then - m else m) * pow10 (if eneg then - ex else ex)))"

section \<open>OBJLoader: objects and faces\<close>

text \<open>
  \<open>ParsedObject\<close>. Its arrays receive whatever the pools return at an index, so an
  element is a number or \<open>undefined\<close> (\<open>None\<close>).
\<close>

record ParsedObject =
  vertices :: "num option list"
  normals :: "num option list"
  uvs :: "num option list"
  name :: string
  material :: string

definition createNewObject :: ParsedObject where
  "createNewObject = \<lparr>vertices = [], normals = [], uvs = [], name = [], material = []\<rparr>"

text \<open>
  \<open>xs[i]\<close> on an array: \<open>undefined\<close> when \<open>i\<close> is negative or not below the length.
\<close>

definition elemAt :: "'a list \<Rightarrow> int \<Rightarrow> 'a option" where
  "elemAt xs i = (if 0 \<le> i \<and> i < int (length xs) then Some (xs ! nat i) else None)"

text \<open>
  The first loop of \<open>addFaceVertices\<close>: per corner the three indices, each minus 1.
  The loop stops at the first undefined group, that is after the corners present.
\<close>

definition faceIndices :: "(string \<times> string \<times> string) list \<Rightarrow> (int \<times> int \<times> int) list" where
  "faceIndices match = map (\<lambda>(a, b, c). (parseInt a - 1, parseInt b - 1, parseInt c - 1)) match"

text \<open>The body of the second loop, for one corner.\<close>

definition addCorner ::
  "num list \<Rightarrow> num list \<Rightarrow> num list \<Rightarrow> ParsedObject \<Rightarrow> int \<times> int \<times> int \<Rightarrow> ParsedObject" where
  "addCorner vs ns ts obj idx =
     (case idx of (vi, ti, ni) \<Rightarrow>
        let vertexIndex = vi * 3;
            o1 = obj\<lparr>vertices := vertices obj @
                   [elemAt vs vertexIndex, elemAt vs (vertexIndex + 1), elemAt vs (vertexIndex + 2)]\<rparr>;
            uvIndex = ti * 2;
            o2 = (if length ts > 0
                  then o1\<lparr>uvs := uvs o1 @ [elemAt ts uvIndex, elemAt ts (uvIndex + 1)]\<rparr> else o1);
            normalIndex = ni * 3
        in if length ns > 0
           then o2\<lparr>normals := normals o2 @
                  [elemAt ns normalIndex, elemAt ns (normalIndex + 1), elemAt ns (normalIndex + 2)]\<rparr>
           else o2)"

definition addFaceVertices ::
  "ParsedObject \<Rightarrow> (string \<times> string \<times> string) list \<Rightarrow> num list \<Rightarrow> num list \<Rightarrow> num list
     \<Rightarrow> ParsedObject" where
  "addFaceVertices obj match vs ns ts = foldl (addCorner vs ns ts) obj (faceIndices match)"

section \<open>OBJLoader: parse\<close>

text \<open>The variables of \<open>parse\<close> that its loop over the lines updates.\<close>

record parser =
  objects :: "ParsedObject list"
  currentObject :: ParsedObject
  poolVertices :: "num list"
  poolNormals :: "num list"
  poolUvs :: "num list"

definition initParser :: parser where
  "initParser = \<lparr>objects = [], currentObject = createNewObject,
                  poolVertices = [], poolNormals = [], poolUvs = []\<rparr>"

text \<open>The body of the loop: one line, in the order of the source's tests.\<close>

definition parseLine :: "parser \<Rightarrow> string \<Rightarrow> parser" where
  "parseLine p raw =
     (let line = trim raw in
      if length line = 0 \<or> startsWith line ''#'' then p
      else case vertexPattern line of
        Some m \<Rightarrow> p\<lparr>poolVertices := poolVertices p @ map parseFloat m\<rparr>
      | None \<Rightarrow> (case normalPattern line of
        Some m \<Rightarrow> p\<lparr>poolNormals := poolNormals p @ map parseFloat m\<rparr>
      | None \<Rightarrow> (case uvPattern line of
        Some m \<Rightarrow> p\<lparr>poolUvs := poolUvs p @ map parseFloat m\<rparr>
      | None \<Rightarrow> (case facePattern line of
        Some m \<Rightarrow> p\<lparr>currentObject :=
                     addFaceVertices (currentObject p) m (poolVertices p) (poolNormals p) (poolUvs p)\<rparr>
      | None \<Rightarrow>
          if startsWith line ''o '' then
            p\<lparr>objects := (if length (vertices (currentObject p)) > 0
                           then objects p @ [currentObject p] else objects p),
              currentObject := createNewObject\<lparr>name := trim (drop 2 line)\<rparr>\<rparr>
          else if startsWith line ''usemtl '' then
            p\<lparr>currentObject := (currentObject p)\<lparr>material := trim (drop 7 line)\<rparr>\<rparr>
          else p))))"

text \<open>
  A mesh of the returned group: the attributes of its geometry (absent when the
  object's array is empty), its name and the name of its material. A \<open>Float32Array\<close>
  stores \<open>NaN\<close> for \<open>undefined\<close>.
\<close>

record mesh =
  positionAttr :: "num list option"
  normalAttr :: "num list option"
  uvAttr :: "num list option"
  meshName :: string
  materialName :: string

definition float32Array :: "num option list \<Rightarrow> num list" where
  "float32Array xs = map (\<lambda>x. case x of None \<Rightarrow> NaN | Some v \<Rightarrow> v) xs"

definition bufferAttribute :: "num option list \<Rightarrow> num list option" where
  "bufferAttribute xs = (if length xs > 0 then Some (float32Array xs) else None)"

definition createGroupFromObjects :: "ParsedObject list \<Rightarrow> mesh list" where
  "createGroupFromObjects objs =
     map (\<lambda>obj. \<lparr>positionAttr = bufferAttribute (vertices obj),
                 normalAttr = bufferAttribute (normals obj),
                 uvAttr = bufferAttribute (uvs obj),
                 meshName = name obj,
                 materialName = material obj\<rparr>) objs"

text \<open>What \<open>parse\<close> collects: the objects, with the last one added when it has vertices.\<close>

definition finish :: "parser \<Rightarrow> ParsedObject list" where
  "finish p = (if length (vertices (currentObject p)) > 0
               then objects p @ [currentObject p] else objects p)"

definition parseObjects :: "string \<Rightarrow> ParsedObject list" where
  "parseObjects text = finish (foldl parseLine initParser (split_lines text))"

definition parse :: "string \<Rightarrow> mesh list" where
  "parse text = createGroupFromObjects (parseObjects text)"

text \<open>
  A declaration line and the lines after it, run on an empty object with the pools as
  they stand: the object that this block of lines builds.
\<close>

definition blockObject :: "num list \<Rightarrow> num list \<Rightarrow> num list \<Rightarrow> string \<Rightarrow> string list \<Rightarrow> ParsedObject" where
  "blockObject vs ns ts d b =
     currentObject (foldl parseLine
       \<lparr>objects = [], currentObject = createNewObject\<lparr>name := trim (drop 2 (trim d))\<rparr>,
        poolVertices = vs, poolNormals = ns, poolUvs = ts\<rparr> b)"

text \<open>Lines by the branch of \<open>parseLine\<close> that takes them.\<close>

definition isObjectLine :: "string \<Rightarrow> bool" where
  "isObjectLine raw \<longleftrightarrow> startsWith (trim raw) ''o ''"

definition isFaceLine :: "string \<Rightarrow> bool" where
  "isFaceLine raw \<longleftrightarrow> facePattern (trim raw) \<noteq> None"

subsection \<open>Test inputs\<close>

definition nl :: string where
  "nl = [CHR 0x0A]"

definition triangleText :: string where
  "triangleText =
     ''v 0 0 0'' @ nl @ ''v 1 0 0'' @ nl @ ''v 0 1 0'' @ nl @
     ''vt 0 0'' @ nl @ ''vt 1 0'' @ nl @ ''vt 0 1'' @ nl @
     ''vn 0 0 1'' @ nl @ ''vn 0 0 1'' @ nl @ ''vn 0 0 1'' @ nl @
     ''f 1/1/1 2/2/2 3/3/3''"

definition badFaceText :: string where
  "badFaceText =
     ''v 0 0 0'' @ nl @ ''vt 0 0'' @ nl @ ''vn 0 0 1'' @ nl @ ''f 2/2/2 0/0/0 -1/-1/-1''"

definition emptyDeclarationsText :: string where
  "emptyDeclarationsText =
     ''v 0 0 0'' @ nl @ ''v 1 0 0'' @ nl @ ''v 0 1 0'' @ nl @
     ''o empty'' @ nl @ ''o empty'' @ nl @ ''usemtl skin'' @ nl @
     ''o full'' @ nl @ ''f 1/1/1 2/2/2 3/3/3'' @ nl @ ''o last''"

definition twoObjectsPre :: "string list" where
  "twoObjectsPre = [''# two triangles'', ''v 0 0 0'', ''v 1 0 0'', ''v 0 1 0'', ''vt 0 0'', ''vn 0 0 1'']"

definition twoObjectsText :: string where
  "twoObjectsText =
     ''# two triangles'' @ nl @ ''v 0 0 0'' @ nl @ ''v 1 0 0'' @ nl @ ''v 0 1 0'' @ nl @
     ''vt 0 0'' @ nl @ ''vn 0 0 1'' @ nl @
     ''o first'' @ nl @ ''f 1/1/1 2/1/1 3/1/1'' @ nl @
     ''o second'' @ nl @ ''v 0 0 2'' @ nl @ ''f 4/1/1 2/1/1 1/1/1''"

chapter \<open>OrbitControls\<close>

section \<open>The three library: vectors, quaternions, spherical coordinates\<close>

text \<open>
  Modelled from the spec: the classes \<open>Vector2\<close>, \<open>Vector3\<close>, \<open>Quaternion\<close> and
  \<open>Spherical\<close> are imported from the three library and are not among the sources. The
  spec calls them the geometric primitives collaborator, with standard vector algebra and
  the conversion between spherical and Cartesian coordinates; the definitions below are
  these standard operations, under the names the controller calls them by.
\<close>

datatype vec2 = Vector2 (v2x: real) (v2y: real)

datatype vec3 = Vector3 (vx: real) (vy: real) (vz: real)

datatype quat = Quaternion (qx: real) (qy: real) (qz: real) (qw: real)

datatype spherical = Spherical (radius: real) (phi: real) (theta: real)

definition subV :: "vec3 \<Rightarrow> vec3 \<Rightarrow> vec3" where
  "subV a b = Vector3 (vx a - vx b) (vy a - vy b) (vz a - vz b)"

definition addV :: "vec3 \<Rightarrow> vec3 \<Rightarrow> vec3" where
  "addV a b = Vector3 (vx a + vx b) (vy a + vy b) (vz a + vz b)"

definition multiplyScalar :: "vec3 \<Rightarrow> real \<Rightarrow> vec3" where
  "multiplyScalar a k = Vector3 (vx a * k) (vy a * k) (vz a * k)"

definition addScaledVector :: "vec3 \<Rightarrow> vec3 \<Rightarrow> real \<Rightarrow> vec3" where
  "addScaledVector a b k = Vector3 (vx a + vx b * k) (vy a + vy b * k) (vz a + vz b * k)"

definition distanceToSquared :: "vec3 \<Rightarrow> vec3 \<Rightarrow> real" where
  "distanceToSquared a b = (vx a - vx b)\<^sup>2 + (vy a - vy b)\<^sup>2 + (vz a - vz b)\<^sup>2"

definition dotV :: "vec3 \<Rightarrow> vec3 \<Rightarrow> real" where
  "dotV a b = vx a * vx b + vy a * vy b + vz a * vz b"



definition dotQ :: "quat \<Rightarrow> quat \<Rightarrow> real" where
  "dotQ a b = qx a * qx b + qy a * qy b + qz a * qz b + qw a * qw b"

text \<open>
  Modelled from the spec: \<open>Quaternion.normalize\<close>, \<open>setFromUnitVectors\<close>, \<open>invert\<close> and
  \<open>Vector3.applyQuaternion\<close> of the three library (not among the sources): the unit
  quaternion that turns one unit vector into another, its conjugate, and the rotation of
  a vector by a unit quaternion. \<open>numberEPSILON\<close> is \<open>Number.EPSILON\<close>.
\<close>

definition numberEPSILON :: real where
  "numberEPSILON = 1 / 2 ^ 52"

definition normalizeQ :: "quat \<Rightarrow> quat" where
  "normalizeQ q =
     (let l = sqrt ((qx q)\<^sup>2 + (qy q)\<^sup>2 + (qz q)\<^sup>2 + (qw q)\<^sup>2) in
      if l = 0 then Quaternion 0 0 0 1
      else Quaternion (qx q * (1 / l)) (qy q * (1 / l)) (qz q * (1 / l)) (qw q * (1 / l)))"

definition setFromUnitVectors :: "vec3 \<Rightarrow> vec3 \<Rightarrow> quat" where
  "setFromUnitVectors vFrom vTo =
     (let r = dotV vFrom vTo + 1 in
      if r < numberEPSILON then
        (if \<bar>vx vFrom\<bar> > \<bar>vz vFrom\<bar>
         then normalizeQ (Quaternion (- vy vFrom) (vx vFrom) 0 0)
         else normalizeQ (Quaternion 0 (- vz vFrom) (vy vFrom) 0))
      else normalizeQ (Quaternion (vy vFrom * vz vTo - vz vFrom * vy vTo)
                                  (vz vFrom * vx vTo - vx vFrom * vz vTo)
                                  (vx vFrom * vy vTo - vy vFrom * vx vTo) r))"

definition invert :: "quat \<Rightarrow> quat" where
  "invert q = Quaternion (- qx q) (- qy q) (- qz q) (qw q)"

definition applyQuaternion :: "vec3 \<Rightarrow> quat \<Rightarrow> vec3" where
  "applyQuaternion v q =
     (let ix = qw q * vx v + qy q * vz v - qz q * vy v;
          iy = qw q * vy v + qz q * vx v - qx q * vz v;
          iz = qw q * vz v + qx q * vy v - qy q * vx v;
          iw = - qx q * vx v - qy q * vy v - qz q * vz v
      in Vector3 (ix * qw q + iw * - qx q + iy * - qz q - iz * - qy q)
                 (iy * qw q + iw * - qy q + iz * - qx q - ix * - qz q)
                 (iz * qw q + iw * - qz q + ix * - qy q - iy * - qx q))"

text \<open>
  Modelled from the spec: \<open>Math.atan2\<close> on reals, and \<open>Spherical.setFromVector3\<close> and
  \<open>Vector3.setFromSpherical\<close> of the three library (not among the sources), the
  conversion between Cartesian and spherical coordinates. The polar angle \<open>phi\<close> is
  measured from the positive y axis, the azimuth \<open>theta\<close> around it from the positive
  z axis. On reals \<open>atan2\<close> is above \<open>-\<pi>\<close>; the program's \<open>Math.atan2\<close> also answers
  \<open>-\<pi>\<close> itself, for a negative first argument and a second argument that is the
  negative zero, and where the result is rounded to it. The range of \<open>Math.atan2\<close> is
  therefore taken as the closed interval from \<open>-\<pi>\<close> to \<open>\<pi>\<close>.
\<close>

definition atan2 :: "real \<Rightarrow> real \<Rightarrow> real" where
  "atan2 y x =
     (if 0 < x then arctan (y / x)
      else if x < 0 then (if 0 \<le> y then arctan (y / x) + pi else arctan (y / x) - pi)
      else if 0 < y then pi / 2 else if y < 0 then - (pi / 2) else 0)"

definition setFromVector3 :: "vec3 \<Rightarrow> spherical" where
  "setFromVector3 v =
     (let r = sqrt ((vx v)\<^sup>2 + (vy v)\<^sup>2 + (vz v)\<^sup>2) in
      if r = 0 then Spherical r 0 0
      else Spherical r (arccos (max (- 1) (min 1 (vy v / r)))) (atan2 (vx v) (vz v)))"

text \<open>
  Modelled from the spec: \<open>Spherical.makeSafe\<close> of the three library (not among the
  sources). The spec: phi is never exactly 0 or \<open>\<pi>\<close>, it is nudged inward by a small
  epsilon, and update applies this nudge after it has clamped the polar angle. The
  library's function restricts phi to lie between its epsilon and \<open>\<pi>\<close> minus its
  epsilon; the epsilon is 0.000001.
\<close>

definition safeEPS :: real where
  "safeEPS = 1 / 1000000"

definition makeSafe :: "spherical \<Rightarrow> spherical" where
  "makeSafe s = Spherical (radius s) (max safeEPS (min (pi - safeEPS) (phi s))) (theta s)"

definition setFromSpherical :: "spherical \<Rightarrow> vec3" where
  "setFromSpherical s =
     (let sinPhiRadius = sin (phi s) * radius s in
      Vector3 (sinPhiRadius * sin (theta s)) (cos (phi s) * radius s) (sinPhiRadius * cos (theta s)))"

section \<open>The controller's state\<close>

text \<open>
  A limit that may be set to \<open>\<plusminus>Infinity\<close>. The upper limits and both azimuth limits are
  of this type; the lower limits of distance and zoom and the polar limits are finite
  numbers, as are all other numbers of the state.
\<close>

datatype limit = NegInfinity | Fin real | Infinity



text \<open>\<open>Math.max(lo, Math.min(hi, x))\<close> for finite \<open>lo\<close> and \<open>x\<close>.\<close>

definition clampLimit :: "real \<Rightarrow> limit \<Rightarrow> real \<Rightarrow> real" where
  "clampLimit lo hi x =
     (case hi of NegInfinity \<Rightarrow> lo | Fin h \<Rightarrow> max lo (min h x) | Infinity \<Rightarrow> max lo x)"

text \<open>
  A number of the program that need not be finite: \<open>NaN\<close>, \<open>-Infinity\<close>, a real or
  \<open>Infinity\<close>. The operations below are those of the language on such numbers, with
  zero taken as the positive zero.
\<close>

datatype number = NotANumber | MinusInfinity | Finite real | PlusInfinity











text \<open>A vector of two such numbers.\<close>

datatype numvec2 = NumVector2 (nx: number) (ny: number)

text \<open>
  What the camera is an instance of: a \<open>PerspectiveCamera\<close> with its field of view
  \<open>fov\<close>, an \<open>OrthographicCamera\<close> with its planes \<open>left\<close>, \<open>right\<close>, \<open>top\<close> and
  \<open>bottom\<close>, or neither.
\<close>

datatype cameraKind = PerspectiveCamera real | OrthographicCamera real real real real | OtherObject

text \<open>
  The camera, as far as the controller reads and writes it. \<open>matrix i\<close> is column \<open>i\<close> of
  the camera's matrix (what \<open>setFromMatrixColumn\<close> reads).
\<close>

record camera =
  position :: vec3
  up :: vec3
  quaternion :: quat
  zoom :: real
  kind :: cameraKind
  matrix :: "nat \<Rightarrow> vec3"

datatype STATE = NONE | ROTATE | DOLLY | PAN | TOUCH_ROTATE | TOUCH_PAN | TOUCH_DOLLY_PAN
  | TOUCH_DOLLY_ROTATE

record PointerEvent =
  pointerId :: int
  pageX :: real
  pageY :: real
  clientX :: real
  clientY :: real

text \<open>The element the controller listens on, as far as the controller reads it.\<close>

record element =
  clientWidth :: real
  clientHeight :: real

text \<open>
  The fields of the class. \<open>events\<close> is the sequence of notifications dispatched so far
  (\<open>dispatchEvent\<close> appends the type), \<open>listening\<close> says whether the pointer is captured
  and the \<open>pointermove\<close> and \<open>pointerup\<close> listeners are attached. The numbers of the
  state are finite, with two exceptions: the limits, and the second component of
  \<open>dollyDelta\<close>, which a two-finger move sets to the result of \<open>Math.pow\<close>.
\<close>

record controls =
  object :: camera
  domElement :: element
  enabled :: bool
  target :: vec3
  minDistance :: real
  maxDistance :: limit
  minZoom :: real
  maxZoom :: limit
  minPolarAngle :: real
  maxPolarAngle :: real
  minAzimuthAngle :: limit
  maxAzimuthAngle :: limit
  enableDamping :: bool
  dampingFactor :: real
  enableZoom :: bool
  zoomSpeed :: real
  enableRotate :: bool
  rotateSpeed :: real
  enablePan :: bool
  panSpeed :: real
  screenSpacePanning :: bool
  autoRotate :: bool
  autoRotateSpeed :: real
  spherical :: spherical
  sphericalDelta :: spherical
  scale :: real
  panOffset :: vec3
  zoomChanged :: bool
  rotateStart :: vec2
  rotateEnd :: vec2
  rotateDelta :: vec2
  panStart :: vec2
  panEnd :: vec2
  panDelta :: vec2
  dollyStart :: vec2
  dollyEnd :: vec2
  dollyDelta :: numvec2
  pointers :: "PointerEvent list"
  pointerPositions :: "int \<rightharpoonup> vec2"
  state :: STATE
  lastPosition :: vec3
  lastQuaternion :: quat
  target0 :: vec3
  position0 :: vec3
  zoom0 :: real
  events :: "string list"
  listening :: bool

definition dispatchEvent :: "string \<Rightarrow> controls \<Rightarrow> controls" where
  "dispatchEvent ty s = s\<lparr>events := events s @ [ty]\<rparr>"

section \<open>update\<close>

text \<open>The field \<open>EPS\<close> of the class, the threshold of the change test.\<close>

definition EPS :: real where
  "EPS = 1 / 1000000"

definition getAutoRotationAngle :: "controls \<Rightarrow> real" where
  "getAutoRotationAngle s = ((2 * pi) / 60 / 60) * autoRotateSpeed s"


definition rotateLeft :: "real \<Rightarrow> controls \<Rightarrow> controls" where
  "rotateLeft angle s =
     s\<lparr>sphericalDelta := Spherical (radius (sphericalDelta s)) (phi (sphericalDelta s))
                                     (theta (sphericalDelta s) - angle)\<rparr>"


text \<open>\<open>quat\<close>: the rotation that takes the camera's up axis to the y axis.\<close>

definition upQuat :: "controls \<Rightarrow> quat" where
  "upQuat s = setFromUnitVectors (up (object s)) (Vector3 0 1 0)"

text \<open>The spherical coordinates of the camera's offset from the target, as update computes them first.\<close>

definition sphericalFromCamera :: "controls \<Rightarrow> spherical" where
  "sphericalFromCamera s =
     setFromVector3 (applyQuaternion (subV (position (object s)) (target s)) (upQuat s))"

definition autoRotateStep :: "controls \<Rightarrow> controls" where
  "autoRotateStep s =
     (if autoRotate s \<and> state s = NONE then rotateLeft (getAutoRotationAngle s) s else s)"

text \<open>The pending deltas are added, scaled by the damping factor when damping is enabled.\<close>

definition applyDelta :: "controls \<Rightarrow> spherical \<Rightarrow> spherical" where
  "applyDelta s sph =
     (if enableDamping s
      then Spherical (radius sph) (phi sph + phi (sphericalDelta s) * dampingFactor s)
                     (theta sph + theta (sphericalDelta s) * dampingFactor s)
      else Spherical (radius sph) (phi sph + phi (sphericalDelta s))
                     (theta sph + theta (sphericalDelta s)))"

text \<open>The value of \<open>spherical.theta\<close> when update reaches the azimuth limits.\<close>

definition thetaBeforeClamp :: "controls \<Rightarrow> real" where
  "thetaBeforeClamp s = theta (applyDelta (autoRotateStep s) (sphericalFromCamera s))"

definition twoPI :: real where
  "twoPI = 2 * pi"

text \<open>What update does to \<open>min\<close> and to \<open>max\<close> when both are finite.\<close>

definition shiftLimit :: "real \<Rightarrow> real" where
  "shiftLimit m = (if m < - pi then m + twoPI else if m > pi then m - twoPI else m)"

text \<open>The block "restrict theta to be between desired limits".\<close>

definition restrictTheta :: "limit \<Rightarrow> limit \<Rightarrow> real \<Rightarrow> real" where
  "restrictTheta mn mx th =
     (case mn of
        Fin a \<Rightarrow> (case mx of
          Fin b \<Rightarrow>
            (let lo = shiftLimit a; hi = shiftLimit b in
             if lo \<le> hi then max lo (min hi th)
             else if th > (lo + hi) / 2 then max lo th else min hi th)
        | _ \<Rightarrow> th)
      | _ \<Rightarrow> th)"

text \<open>
  The spherical coordinates that update stores: deltas applied, theta and phi
  restricted, \<open>makeSafe\<close>, radius scaled and restricted.
\<close>

definition newSpherical :: "controls \<Rightarrow> spherical" where
  "newSpherical s =
     (let s1 = autoRotateStep s;
          sph1 = applyDelta s1 (sphericalFromCamera s);
          sph2 = Spherical (radius sph1) (phi sph1)
                   (restrictTheta (minAzimuthAngle s) (maxAzimuthAngle s) (theta sph1));
          sph3 = makeSafe (Spherical (radius sph2)
                   (max (minPolarAngle s) (min (maxPolarAngle s) (phi sph2))) (theta sph2))
      in Spherical (clampLimit (minDistance s) (maxDistance s) (radius sph3 * scale s))
                   (phi sph3) (theta sph3))"

definition newTarget :: "controls \<Rightarrow> vec3" where
  "newTarget s =
     (if enableDamping s then addScaledVector (target s) (panOffset s) (dampingFactor s)
      else addV (target s) (panOffset s))"

definition newPosition :: "controls \<Rightarrow> vec3" where
  "newPosition s =
     addV (newTarget s) (applyQuaternion (setFromSpherical (newSpherical s)) (invert (upQuat s)))"

text \<open>
  The state after the integration step, before the change test. \<open>lookAt\<close> stands for
  \<open>Object3D.lookAt\<close> of the three library: the orientation of a camera at a position
  that looks at a target with a given up axis. It is a parameter of the model.
\<close>

definition integrate :: "(vec3 \<Rightarrow> vec3 \<Rightarrow> vec3 \<Rightarrow> quat) \<Rightarrow> controls \<Rightarrow> controls" where
  "integrate lookAt s =
     (let s1 = autoRotateStep s;
          k = dampingFactor s
      in s1\<lparr>spherical := newSpherical s,
            target := newTarget s,
            object := (object s)\<lparr>position := newPosition s,
                        quaternion := lookAt (newPosition s) (newTarget s) (up (object s))\<rparr>,
            sphericalDelta :=
              (if enableDamping s
               then Spherical (radius (sphericalDelta s1)) (phi (sphericalDelta s1) * (1 - k))
                              (theta (sphericalDelta s1) * (1 - k))
               else Spherical 0 0 0),
            panOffset := (if enableDamping s then multiplyScalar (panOffset s) (1 - k)
                          else Vector3 0 0 0),
            scale := 1\<rparr>)"

text \<open>
  update. Its \<open>lastPosition\<close> and \<open>lastQuaternion\<close> are constants of the function body,
  created by \<open>new Vector3()\<close> and \<open>new Quaternion()\<close> in every call: the zero vector and
  the identity. The copies made into them when a change is reported are lost when the
  call returns; the fields of the same names are not used.
\<close>

definition update :: "(vec3 \<Rightarrow> vec3 \<Rightarrow> vec3 \<Rightarrow> quat) \<Rightarrow> controls \<Rightarrow> bool \<times> controls" where
  "update lookAt s =
     (let lastPosition = Vector3 0 0 0;
          lastQuaternion = Quaternion 0 0 0 1;
          s' = integrate lookAt s
      in if zoomChanged s'
            \<or> distanceToSquared lastPosition (position (object s')) > EPS
            \<or> 8 * (1 - dotQ lastQuaternion (quaternion (object s'))) > EPS
         then (True, (dispatchEvent ''change'' s')\<lparr>zoomChanged := False\<rparr>)
         else (False, s'))"

section \<open>saveState, reset, dolly, pan\<close>
















section \<open>Pointers\<close>

definition addPointer :: "PointerEvent \<Rightarrow> controls \<Rightarrow> controls" where
  "addPointer event s = s\<lparr>pointers := pointers s @ [event]\<rparr>"

text \<open>The loop of \<open>removePointer\<close>: the first pointer with the identity is spliced out.\<close>

fun spliceFirst :: "int \<Rightarrow> PointerEvent list \<Rightarrow> PointerEvent list" where
  "spliceFirst i [] = []"
| "spliceFirst i (p # ps) = (if pointerId p = i then ps else p # spliceFirst i ps)"

definition removePointer :: "PointerEvent \<Rightarrow> controls \<Rightarrow> controls" where
  "removePointer event s =
     s\<lparr>pointerPositions := (pointerPositions s)(pointerId event := None),
       pointers := spliceFirst (pointerId event) (pointers s)\<rparr>"

definition onPointerUp :: "PointerEvent \<Rightarrow> controls \<Rightarrow> controls" where
  "onPointerUp event s =
     (let s1 = removePointer event s;
          s2 = (if length (pointers s1) = 0 then s1\<lparr>listening := False\<rparr> else s1);
          s3 = dispatchEvent ''end'' s2
      in s3\<lparr>state := NONE\<rparr>)"

definition onPointerCancel :: "PointerEvent \<Rightarrow> controls \<Rightarrow> controls" where
  "onPointerCancel event s = removePointer event s"








section \<open>Sequences of dolly operations\<close>






section \<open>A controller as the constructor leaves it\<close>

definition identityMatrix :: "nat \<Rightarrow> vec3" where
  "identityMatrix i =
     (if i = 0 then Vector3 1 0 0 else if i = 1 then Vector3 0 1 0
      else if i = 2 then Vector3 0 0 1 else Vector3 0 0 0)"

text \<open>
  A perspective camera at a position, with the library's default up axis and orientation
  and the field of view of 75 degrees that the application gives it.
\<close>

definition perspectiveAt :: "vec3 \<Rightarrow> camera" where
  "perspectiveAt p = \<lparr>position = p, up = Vector3 0 1 0, quaternion = Quaternion 0 0 0 1,
                      zoom = 1, kind = PerspectiveCamera 75, matrix = identityMatrix\<rparr>"

text \<open>An element of 800 by 600 pixels.\<close>

definition screen :: element where
  "screen = \<lparr>clientWidth = 800, clientHeight = 600\<rparr>"

text \<open>The field initialisers of the class and the assignments of the constructor before its update.\<close>

definition fieldDefaults :: "camera \<Rightarrow> element \<Rightarrow> controls" where
  "fieldDefaults cam el =
     \<lparr>object = cam, domElement = el, enabled = True, target = Vector3 0 0 0,
      minDistance = 0, maxDistance = Infinity, minZoom = 0, maxZoom = Infinity,
      minPolarAngle = 0, maxPolarAngle = pi,
      minAzimuthAngle = NegInfinity, maxAzimuthAngle = Infinity,
      enableDamping = False, dampingFactor = 0.05, enableZoom = True, zoomSpeed = 1,
      enableRotate = True, rotateSpeed = 1, enablePan = True, panSpeed = 1,
      screenSpacePanning = True,
      autoRotate = False, autoRotateSpeed = 2,
      spherical = Spherical 1 0 0, sphericalDelta = Spherical 1 0 0, scale = 1,
      panOffset = Vector3 0 0 0, zoomChanged = False,
      rotateStart = Vector2 0 0, rotateEnd = Vector2 0 0, rotateDelta = Vector2 0 0,
      panStart = Vector2 0 0, panEnd = Vector2 0 0, panDelta = Vector2 0 0,
      dollyStart = Vector2 0 0, dollyEnd = Vector2 0 0,
      dollyDelta = NumVector2 (Finite 0) (Finite 0),
      pointers = [], pointerPositions = Map.empty, state = NONE,
      lastPosition = Vector3 0 0 0, lastQuaternion = Quaternion 0 0 0 1,
      target0 = Vector3 0 0 0, position0 = position cam, zoom0 = zoom cam,
      events = [], listening = False\<rparr>"

definition newOrbitControls ::
  "(vec3 \<Rightarrow> vec3 \<Rightarrow> vec3 \<Rightarrow> quat) \<Rightarrow> camera \<Rightarrow> element \<Rightarrow> controls" where
  "newOrbitControls lookAt cam el = snd (update lookAt (fieldDefaults cam el))"

section \<open>States and predicates used in the statements\<close>

text \<open>An implementation of \<open>lookAt\<close> for closed statements: it always answers the identity.\<close>

definition fixedLookAt :: "vec3 \<Rightarrow> vec3 \<Rightarrow> vec3 \<Rightarrow> quat" where
  "fixedLookAt p t u = Quaternion 0 0 0 1"

text \<open>
  The controller as the application creates it: a perspective camera at (0, 0, 5),
  \<open>enableDamping = true\<close> and \<open>dampingFactor = 0.05\<close> set after construction.
\<close>

definition appControls :: "(vec3 \<Rightarrow> vec3 \<Rightarrow> vec3 \<Rightarrow> quat) \<Rightarrow> controls" where
  "appControls lookAt =
     (newOrbitControls lookAt (perspectiveAt (Vector3 0 0 5)) screen)\<lparr>enableDamping := True, dampingFactor := 0.05\<rparr>"


text \<open>
  States whose camera stands on the z axis at distance 5 from a target at the origin,
  with nothing pending and the default limits.
\<close>

definition atRest :: "controls \<Rightarrow> bool" where
  "atRest s \<longleftrightarrow>
     position (object s) = Vector3 0 0 5 \<and> up (object s) = Vector3 0 1 0 \<and>
     target s = Vector3 0 0 0 \<and> panOffset s = Vector3 0 0 0 \<and>
     phi (sphericalDelta s) = 0 \<and> theta (sphericalDelta s) = 0 \<and> scale s = 1 \<and>
     \<not> autoRotate s \<and> minDistance s = 0 \<and> maxDistance s = Infinity \<and>
     minPolarAngle s = 0 \<and> maxPolarAngle s = pi \<and>
     minAzimuthAngle s = NegInfinity \<and> maxAzimuthAngle s = Infinity"


text \<open>
  A new controller without damping, with the azimuth limits \<open>a\<close> and \<open>b\<close>, after a rotate
  move has called \<open>rotateLeft(-angle)\<close>: theta is \<open>angle\<close> when update reaches the limits.
\<close>

definition azimuthControls ::
  "(vec3 \<Rightarrow> vec3 \<Rightarrow> vec3 \<Rightarrow> quat) \<Rightarrow> real \<Rightarrow> real \<Rightarrow> real \<Rightarrow> controls" where
  "azimuthControls lookAt a b angle =
     rotateLeft (- angle)
       ((newOrbitControls lookAt (perspectiveAt (Vector3 0 0 5)) screen)
          \<lparr>minAzimuthAngle := Fin a, maxAzimuthAngle := Fin b\<rparr>)"


text \<open>
  A pointer event of a finger at the origin of the page, and the application's
  controller with two such fingers down: the distance of the fingers in \<open>dollyStart\<close> and
  their midpoint in \<open>panStart\<close> are zero.
\<close>

definition finger :: "int \<Rightarrow> PointerEvent" where
  "finger i = \<lparr>pointerId = i, pageX = 0, pageY = 0, clientX = 0, clientY = 0\<rparr>"

definition twoFingers :: "(vec3 \<Rightarrow> vec3 \<Rightarrow> vec3 \<Rightarrow> quat) \<Rightarrow> controls" where
  "twoFingers lookAt =
     (addPointer (finger 2) (addPointer (finger 1) (appControls lookAt)))
       \<lparr>pointerPositions := [1 \<mapsto> Vector2 0 0, 2 \<mapsto> Vector2 0 0],
        state := TOUCH_DOLLY_PAN, listening := True\<rparr>"






chapter \<open>Properties of the parser\<close>

lemma objectLine_branch:
  assumes "startsWith line ''o ''"
  shows "length line \<noteq> 0" "\<not> startsWith line ''#''" "vertexPattern line = None"
    "normalPattern line = None" "uvPattern line = None" "facePattern line = None"
  using assms
  by (cases line; simp add: startsWith_def vertexPattern_def normalPattern_def uvPattern_def
      facePattern_def)+

lemma parseLine_object:
  assumes "isObjectLine d"
  shows "parseLine p d =
           p\<lparr>objects := (if length (vertices (currentObject p)) > 0
                          then objects p @ [currentObject p] else objects p),
             currentObject := createNewObject\<lparr>name := trim (drop 2 (trim d))\<rparr>\<rparr>"
  using assms objectLine_branch[of "trim d"]
  by (simp add: parseLine_def isObjectLine_def Let_def)

lemma parseLine_objects_same:
  "\<not> isObjectLine l \<Longrightarrow> objects (parseLine p l) = objects p"
  by (simp add: parseLine_def isObjectLine_def Let_def split: option.splits)

lemma parseLine_objects_irrelevant:
  "\<not> isObjectLine l \<Longrightarrow> parseLine (p\<lparr>objects := X\<rparr>) l = (parseLine p l)\<lparr>objects := X\<rparr>"
  by (simp add: parseLine_def isObjectLine_def Let_def split: option.splits)

lemma foldl_parseLine_objects_same:
  "\<forall>l\<in>set ls. \<not> isObjectLine l \<Longrightarrow> objects (foldl parseLine p ls) = objects p"
  by (induction ls arbitrary: p) (simp_all add: parseLine_objects_same)

lemma foldl_parseLine_objects_irrelevant:
  "\<forall>l\<in>set ls. \<not> isObjectLine l \<Longrightarrow>
     foldl parseLine (p\<lparr>objects := X\<rparr>) ls = (foldl parseLine p ls)\<lparr>objects := X\<rparr>"
  by (induction ls arbitrary: p) (simp_all add: parseLine_objects_irrelevant)

lemma addCorner_vertices:
  "length (vertices (addCorner vs ns ts obj idx)) = length (vertices obj) + 3"
  by (cases idx) (simp add: addCorner_def Let_def)

lemma addFaceVertices_vertices:
  "length (vertices (addFaceVertices obj m vs ns ts)) = length (vertices obj) + 3 * length m"
proof -
  have "length (vertices (foldl (addCorner vs ns ts) obj is)) = length (vertices obj) + 3 * length is"
    for "is"
    by (induction "is" arbitrary: obj) (simp_all add: addCorner_vertices)
  then show ?thesis by (simp add: addFaceVertices_def faceIndices_def)
qed

lemma facePattern_corners: "facePattern line = Some m \<Longrightarrow> length m = 3 \<or> length m = 4"
  by (auto simp add: facePattern_def split: if_splits option.splits)

lemma parseLine_vertices_same:
  "\<not> isObjectLine l \<Longrightarrow> \<not> isFaceLine l \<Longrightarrow>
     vertices (currentObject (parseLine p l)) = vertices (currentObject p)"
  by (simp add: parseLine_def isObjectLine_def isFaceLine_def Let_def split: option.splits)

lemma parseLine_vertices_mono:
  "\<not> isObjectLine l \<Longrightarrow>
     length (vertices (currentObject p)) \<le> length (vertices (currentObject (parseLine p l)))"
  by (simp add: parseLine_def isObjectLine_def Let_def addFaceVertices_vertices split: option.splits)

lemma parseLine_face_vertices:
  assumes "isFaceLine l"
  shows "0 < length (vertices (currentObject (parseLine p l)))"
proof -
  from assms obtain m where m: "facePattern (trim l) = Some m"
    by (auto simp add: isFaceLine_def)
  then have f: "startsWith (trim l) ''f''"
    by (simp add: facePattern_def split: if_splits)
  then have "length (trim l) \<noteq> 0" "\<not> startsWith (trim l) ''#''" "vertexPattern (trim l) = None"
    "normalPattern (trim l) = None" "uvPattern (trim l) = None"
    by (cases "trim l"; simp add: startsWith_def vertexPattern_def normalPattern_def uvPattern_def)+
  with m facePattern_corners[OF m] show ?thesis
    by (auto simp add: parseLine_def Let_def addFaceVertices_vertices)
qed

lemma foldl_parseLine_vertices_same:
  "\<forall>l\<in>set ls. \<not> isObjectLine l \<and> \<not> isFaceLine l \<Longrightarrow>
     vertices (currentObject (foldl parseLine p ls)) = vertices (currentObject p)"
  by (induction ls arbitrary: p) (simp_all add: parseLine_vertices_same)

lemma foldl_parseLine_vertices_mono:
  "\<forall>l\<in>set ls. \<not> isObjectLine l \<Longrightarrow>
     length (vertices (currentObject p)) \<le> length (vertices (currentObject (foldl parseLine p ls)))"
proof (induction ls arbitrary: p)
  case Nil
  then show ?case by simp
next
  case (Cons l ls)
  have "length (vertices (currentObject p)) \<le> length (vertices (currentObject (parseLine p l)))"
    using Cons.prems by (simp add: parseLine_vertices_mono)
  also have "\<dots> \<le> length (vertices (currentObject (foldl parseLine (parseLine p l) ls)))"
    using Cons.prems by (intro Cons.IH) simp
  finally show ?case by simp
qed

lemma foldl_parseLine_face_vertices:
  assumes "\<forall>l\<in>set ls. \<not> isObjectLine l" and "\<exists>l\<in>set ls. isFaceLine l"
  shows "0 < length (vertices (currentObject (foldl parseLine p ls)))"
proof -
  from assms(2) obtain l where "l \<in> set ls" "isFaceLine l" by blast
  then obtain xs ys where ls: "ls = xs @ l # ys" by (auto simp add: in_set_conv_decomp)
  let ?q = "parseLine (foldl parseLine p xs) l"
  have "0 < length (vertices (currentObject ?q))"
    using \<open>isFaceLine l\<close> by (rule parseLine_face_vertices)
  also have "\<dots> \<le> length (vertices (currentObject (foldl parseLine ?q ys)))"
    using assms(1) ls by (intro foldl_parseLine_vertices_mono) simp
  finally show ?thesis by (simp add: ls)
qed

lemma parseLine_objects_nonempty:
  "\<forall>obj\<in>set (objects p). vertices obj \<noteq> [] \<Longrightarrow>
     \<forall>obj\<in>set (objects (parseLine p l)). vertices obj \<noteq> []"
  by (auto simp add: parseLine_def Let_def split: option.splits if_splits)

lemma foldl_parseLine_objects_nonempty:
  "\<forall>obj\<in>set (objects p). vertices obj \<noteq> [] \<Longrightarrow>
     \<forall>obj\<in>set (objects (foldl parseLine p ls)). vertices obj \<noteq> []"
proof (induction ls arbitrary: p)
  case Nil
  then show ?case by simp
next
  case (Cons l ls)
  show ?case
    using Cons.IH[OF parseLine_objects_nonempty[OF Cons.prems]] by simp
qed

lemma parseObjects_nonempty: "\<forall>obj\<in>set (parseObjects t). vertices obj \<noteq> []"
  using foldl_parseLine_objects_nonempty[of initParser "split_lines t"]
  by (auto simp add: parseObjects_def finish_def initParser_def)

lemma block_start:
  "p\<lparr>objects := [], currentObject := c\<rparr> =
     \<lparr>objects = [], currentObject = c, poolVertices = poolVertices p,
      poolNormals = poolNormals p, poolUvs = poolUvs p\<rparr>"
  by simp

theorem two_blocks:
  assumes lines: "split_lines t = pre @ [d1] @ b1 @ [d2] @ b2"
    and d: "isObjectLine d1" "isObjectLine d2"
    and pre: "\<forall>l\<in>set pre. \<not> isObjectLine l \<and> \<not> isFaceLine l"
    and b: "\<forall>l\<in>set b1 \<union> set b2. \<not> isObjectLine l"
    and f: "\<exists>l\<in>set b1. isFaceLine l" "\<exists>l\<in>set b2. isFaceLine l"
  shows "parseObjects t =
           [blockObject (poolVertices (foldl parseLine initParser pre))
              (poolNormals (foldl parseLine initParser pre))
              (poolUvs (foldl parseLine initParser pre)) d1 b1,
            blockObject (poolVertices (foldl parseLine initParser (pre @ d1 # b1)))
              (poolNormals (foldl parseLine initParser (pre @ d1 # b1)))
              (poolUvs (foldl parseLine initParser (pre @ d1 # b1))) d2 b2]"
proof -
  define p0 where "p0 = foldl parseLine initParser pre"
  define c1 where "c1 = createNewObject\<lparr>name := trim (drop 2 (trim d1))\<rparr>"
  define c2 where "c2 = createNewObject\<lparr>name := trim (drop 2 (trim d2))\<rparr>"
  define p1 where "p1 = p0\<lparr>objects := [], currentObject := c1\<rparr>"
  define p2 where "p2 = foldl parseLine p1 b1"
  define p3 where "p3 = p2\<lparr>objects := [], currentObject := c2\<rparr>"
  define p4 where "p4 = foldl parseLine p3 b2"
  have b1: "\<forall>l\<in>set b1. \<not> isObjectLine l" and b2: "\<forall>l\<in>set b2. \<not> isObjectLine l"
    using b by auto
  have o0: "objects p0 = []"
    using pre by (simp add: p0_def foldl_parseLine_objects_same initParser_def)
  have v0: "vertices (currentObject p0) = []"
    using pre by (simp add: p0_def foldl_parseLine_vertices_same initParser_def createNewObject_def)
  have s1: "parseLine p0 d1 = p1"
    using o0 v0 by (simp add: parseLine_object[OF d(1)] p1_def c1_def)
  have o2: "objects p2 = []"
    using b1 by (simp add: p2_def foldl_parseLine_objects_same p1_def)
  have v2: "0 < length (vertices (currentObject p2))"
    unfolding p2_def using b1 f(1) by (rule foldl_parseLine_face_vertices)
  have s3: "parseLine p2 d2 = p3\<lparr>objects := [currentObject p2]\<rparr>"
    using o2 v2 by (simp add: parseLine_object[OF d(2)] p3_def c2_def)
  have s4: "foldl parseLine (p3\<lparr>objects := [currentObject p2]\<rparr>) b2 = p4\<lparr>objects := [currentObject p2]\<rparr>"
    using b2 by (simp add: foldl_parseLine_objects_irrelevant p4_def)
  have v4: "0 < length (vertices (currentObject p4))"
    unfolding p4_def using b2 f(2) by (rule foldl_parseLine_face_vertices)
  have run: "foldl parseLine initParser (split_lines t) = p4\<lparr>objects := [currentObject p2]\<rparr>"
    by (simp add: lines p0_def[symmetric] s1 p2_def[symmetric] s3 s4)
  have mid: "foldl parseLine initParser (pre @ d1 # b1) = p2"
    by (simp add: p0_def[symmetric] s1 p2_def)
  have e1: "currentObject p2 = blockObject (poolVertices p0) (poolNormals p0) (poolUvs p0) d1 b1"
    by (simp add: blockObject_def p2_def p1_def c1_def block_start)
  have e2: "currentObject p4 = blockObject (poolVertices p2) (poolNormals p2) (poolUvs p2) d2 b2"
    by (simp add: blockObject_def p4_def p3_def c2_def block_start)
  have "parseObjects t = [currentObject p2, currentObject p4]"
    using v4 by (simp add: parseObjects_def run finish_def)
  then show ?thesis
    unfolding mid p0_def[symmetric] by (simp only: e1 e2)
qed

lemma addFaceVertices_name: "name (addFaceVertices obj m vs ns ts) = name obj"
proof -
  have "name (foldl (addCorner vs ns ts) obj is) = name obj" for "is"
    by (induction "is" arbitrary: obj) (simp_all add: addCorner_def Let_def split: prod.splits)
  then show ?thesis by (simp add: addFaceVertices_def)
qed

lemma parseLine_name_same:
  "\<not> isObjectLine l \<Longrightarrow> name (currentObject (parseLine p l)) = name (currentObject p)"
  by (simp add: parseLine_def isObjectLine_def Let_def addFaceVertices_name split: option.splits)

lemma foldl_parseLine_name_same:
  "\<forall>l\<in>set ls. \<not> isObjectLine l \<Longrightarrow>
     name (currentObject (foldl parseLine p ls)) = name (currentObject p)"
  by (induction ls arbitrary: p) (simp_all add: parseLine_name_same)

lemma blockObject_name:
  "\<forall>l\<in>set b. \<not> isObjectLine l \<Longrightarrow> name (blockObject vs ns ts d b) = trim (drop 2 (trim d))"
  by (simp add: blockObject_def foldl_parseLine_name_same createNewObject_def)

lemma parse_nonempty: "\<forall>m\<in>set (parse u). \<exists>xs. positionAttr m = Some xs \<and> xs \<noteq> []"
  using parseObjects_nonempty[of u]
  by (auto simp add: parse_def createGroupFromObjects_def bufferAttribute_def float32Array_def)

text \<open>
  Claim C8. Parsing the text of three \<open>v\<close> lines, three \<open>vt\<close> lines, three \<open>vn\<close> lines and
  the face \<open>f 1/1/1 2/2/2 3/3/3\<close> gives exactly one mesh. Its position attribute holds
  exactly the 9 numbers of the three vertices, its uv attribute the 6 numbers of the three
  texture coordinates, its normal attribute the 9 numbers of the three normals, each in
  the order of the corners of the face.
\<close>

theorem parse_triangle:
  "parse triangleText =
     [\<lparr>positionAttr = Some [Num 0, Num 0, Num 0, Num 1, Num 0, Num 0, Num 0, Num 1, Num 0],
       normalAttr = Some [Num 0, Num 0, Num 1, Num 0, Num 0, Num 1, Num 0, Num 0, Num 1],
       uvAttr = Some [Num 0, Num 0, Num 1, Num 0, Num 0, Num 1],
       meshName = [], materialName = []\<rparr>]"
  unfolding triangleText_def nl_def by code_simp

text \<open>
  Claim C9. Let the lines of a text be: lines with no face and no object declaration, an
  object declaration, a block of lines with at least one face and no object declaration,
  a second object declaration and a second such block. Then \<open>parse\<close> gives exactly two
  objects, in the order of the declarations and under the declared names, and each is the
  object that its own declaration and block build from an empty object, against the
  pools as they stand at its declaration. And for every text, every mesh of the output
  has a position attribute that is not empty: an object that collected no vertices, such
  as the one of a repeated or empty declaration, is not in the output.
\<close>

theorem parse_two_objects:
  assumes "split_lines t = pre @ [d1] @ b1 @ [d2] @ b2"
    and "isObjectLine d1" and "isObjectLine d2"
    and "\<forall>l\<in>set pre. \<not> isObjectLine l \<and> \<not> isFaceLine l"
    and "\<forall>l\<in>set b1 \<union> set b2. \<not> isObjectLine l"
    and "\<exists>l\<in>set b1. isFaceLine l" and "\<exists>l\<in>set b2. isFaceLine l"
  shows "parseObjects t =
           [blockObject (poolVertices (foldl parseLine initParser pre))
              (poolNormals (foldl parseLine initParser pre))
              (poolUvs (foldl parseLine initParser pre)) d1 b1,
            blockObject (poolVertices (foldl parseLine initParser (pre @ d1 # b1)))
              (poolNormals (foldl parseLine initParser (pre @ d1 # b1)))
              (poolUvs (foldl parseLine initParser (pre @ d1 # b1))) d2 b2]
    \<and> map meshName (parse t) = [trim (drop 2 (trim d1)), trim (drop 2 (trim d2))]
    \<and> (\<forall>u. \<forall>obj\<in>set (parseObjects u). vertices obj \<noteq> [])
    \<and> (\<forall>u. \<forall>m\<in>set (parse u). \<exists>xs. positionAttr m = Some xs \<and> xs \<noteq> [])"
proof -
  have b: "\<forall>l\<in>set b1. \<not> isObjectLine l" "\<forall>l\<in>set b2. \<not> isObjectLine l"
    using assms(5) by auto
  note objs = two_blocks[OF assms]
  have "map meshName (parse t) = [trim (drop 2 (trim d1)), trim (drop 2 (trim d2))]"
    unfolding parse_def objs
    by (simp add: createGroupFromObjects_def blockObject_name[OF b(1)] blockObject_name[OF b(2)])
  with objs parse_nonempty parseObjects_nonempty show ?thesis by blast
qed

text \<open>
  The theorem at a text of two triangles: the two meshes are named \<open>first\<close> and \<open>second\<close>,
  and each holds the corners of its own face line. And a text with four declarations of
  which one has a face: the output is that one object.
\<close>

theorem parse_two_objects_witness:
  "split_lines twoObjectsText =
     twoObjectsPre @ [''o first''] @ [''f 1/1/1 2/1/1 3/1/1''] @ [''o second'']
       @ [''v 0 0 2'', ''f 4/1/1 2/1/1 1/1/1'']
   \<and> map meshName (parse twoObjectsText) = [''first'', ''second'']
   \<and> map meshName (parse emptyDeclarationsText) = [''full'']
   \<and> parse twoObjectsText =
       [\<lparr>positionAttr = Some [Num 0, Num 0, Num 0, Num 1, Num 0, Num 0, Num 0, Num 1, Num 0],
         normalAttr = Some [Num 0, Num 0, Num 1, Num 0, Num 0, Num 1, Num 0, Num 0, Num 1],
         uvAttr = Some [Num 0, Num 0, Num 0, Num 0, Num 0, Num 0],
         meshName = ''first'', materialName = []\<rparr>,
        \<lparr>positionAttr = Some [Num 0, Num 0, Num 2, Num 1, Num 0, Num 0, Num 0, Num 0, Num 0],
         normalAttr = Some [Num 0, Num 0, Num 1, Num 0, Num 0, Num 1, Num 0, Num 0, Num 1],
         uvAttr = Some [Num 0, Num 0, Num 0, Num 0, Num 0, Num 0],
         meshName = ''second'', materialName = []\<rparr>]"
proof -
  have h1: "split_lines twoObjectsText =
      twoObjectsPre @ [''o first''] @ [''f 1/1/1 2/1/1 3/1/1''] @ [''o second'']
        @ [''v 0 0 2'', ''f 4/1/1 2/1/1 1/1/1'']"
    unfolding twoObjectsText_def twoObjectsPre_def nl_def by code_simp
  have h2: "isObjectLine ''o first''" and h3: "isObjectLine ''o second''"
    by code_simp+
  have h4: "\<forall>l\<in>set twoObjectsPre. \<not> isObjectLine l \<and> \<not> isFaceLine l"
    unfolding twoObjectsPre_def by code_simp
  have h5: "\<forall>l\<in>set [''f 1/1/1 2/1/1 3/1/1''] \<union> set [''v 0 0 2'', ''f 4/1/1 2/1/1 1/1/1'']. \<not> isObjectLine l"
    by code_simp
  have h6: "\<exists>l\<in>set [''f 1/1/1 2/1/1 3/1/1'']. isFaceLine l"
    and h7: "\<exists>l\<in>set [''v 0 0 2'', ''f 4/1/1 2/1/1 1/1/1'']. isFaceLine l"
    by code_simp+
  have n: "trim (drop 2 (trim ''o first'')) = ''first''" "trim (drop 2 (trim ''o second'')) = ''second''"
    by code_simp+
  have v: "parse twoObjectsText =
       [\<lparr>positionAttr = Some [Num 0, Num 0, Num 0, Num 1, Num 0, Num 0, Num 0, Num 1, Num 0],
         normalAttr = Some [Num 0, Num 0, Num 1, Num 0, Num 0, Num 1, Num 0, Num 0, Num 1],
         uvAttr = Some [Num 0, Num 0, Num 0, Num 0, Num 0, Num 0],
         meshName = ''first'', materialName = []\<rparr>,
        \<lparr>positionAttr = Some [Num 0, Num 0, Num 2, Num 1, Num 0, Num 0, Num 0, Num 0, Num 0],
         normalAttr = Some [Num 0, Num 0, Num 1, Num 0, Num 0, Num 1, Num 0, Num 0, Num 1],
         uvAttr = Some [Num 0, Num 0, Num 0, Num 0, Num 0, Num 0],
         meshName = ''second'', materialName = []\<rparr>]"
    unfolding twoObjectsText_def nl_def by code_simp
  have e: "map meshName (parse emptyDeclarationsText) = [''full'']"
    unfolding emptyDeclarationsText_def nl_def by code_simp
  from parse_two_objects[OF h1 h2 h3 h4 h5 h6 h7]
  have "map meshName (parse twoObjectsText) = [''first'', ''second'']"
    by (simp only: n)
  with h1 v e show ?thesis by blast
qed

text \<open>
  Claim C10. The parser checks neither the range nor the sign of the indices of a face.
  The face pattern accepts the corners \<open>2/2/2\<close>, \<open>0/0/0\<close> and \<open>-1/-1/-1\<close>. After one vertex,
  one texture coordinate and one normal every one of these indices is out of range; the
  line is neither rejected nor skipped, and the object that is collected holds
  \<open>undefined\<close> at all its 9 + 9 + 6 places, which the attributes of the emitted mesh store
  as \<open>NaN\<close>.
\<close>

theorem parse_unchecked_indices:
  "facePattern ''f 2/2/2 0/0/0 -1/-1/-1'' =
     Some [(''2'', ''2'', ''2''), (''0'', ''0'', ''0''), (''-1'', ''-1'', ''-1'')]
   \<and> parseObjects badFaceText =
       [\<lparr>vertices = replicate 9 None, normals = replicate 9 None, uvs = replicate 6 None,
         name = [], material = []\<rparr>]
   \<and> parse badFaceText =
       [\<lparr>positionAttr = Some (replicate 9 NaN), normalAttr = Some (replicate 9 NaN),
         uvAttr = Some (replicate 6 NaN), meshName = [], materialName = []\<rparr>]"
  unfolding badFaceText_def nl_def by code_simp

chapter \<open>Properties of the controller\<close>

section \<open>What update stores and what it keeps\<close>

lemma update_spherical: "spherical (snd (update L s)) = newSpherical s"
  by (simp add: update_def integrate_def Let_def dispatchEvent_def)






lemma autoRotateStep_config:
  "enableDamping (autoRotateStep s) = enableDamping s"
  "dampingFactor (autoRotateStep s) = dampingFactor s"
  by (simp_all add: autoRotateStep_def rotateLeft_def)

lemma autoRotateStep_keeps:
  "autoRotate (autoRotateStep s) = autoRotate s" "state (autoRotateStep s) = state s"
  "target0 (autoRotateStep s) = target0 s" "position0 (autoRotateStep s) = position0 s"
  "zoom0 (autoRotateStep s) = zoom0 s"
  "minDistance (autoRotateStep s) = minDistance s" "maxDistance (autoRotateStep s) = maxDistance s"
  "minPolarAngle (autoRotateStep s) = minPolarAngle s"
  "maxPolarAngle (autoRotateStep s) = maxPolarAngle s"
  "minAzimuthAngle (autoRotateStep s) = minAzimuthAngle s"
  "maxAzimuthAngle (autoRotateStep s) = maxAzimuthAngle s"
  by (simp_all add: autoRotateStep_def rotateLeft_def)

lemma update_keeps:
  "enableDamping (snd (update L s)) = enableDamping s"
  "dampingFactor (snd (update L s)) = dampingFactor s"
  "autoRotate (snd (update L s)) = autoRotate s"
  "state (snd (update L s)) = state s"
  "target0 (snd (update L s)) = target0 s"
  "position0 (snd (update L s)) = position0 s"
  "zoom0 (snd (update L s)) = zoom0 s"
  "up (object (snd (update L s))) = up (object s)"
  "minPolarAngle (snd (update L s)) = minPolarAngle s"
  "maxPolarAngle (snd (update L s)) = maxPolarAngle s"
  "minAzimuthAngle (snd (update L s)) = minAzimuthAngle s"
  "maxAzimuthAngle (snd (update L s)) = maxAzimuthAngle s"
  by (simp_all add: update_def integrate_def Let_def dispatchEvent_def autoRotateStep_config
      autoRotateStep_keeps)



lemma newSpherical_theta:
  "theta (newSpherical s) =
     restrictTheta (minAzimuthAngle s) (maxAzimuthAngle s) (thetaBeforeClamp s)"
  by (simp add: newSpherical_def Let_def makeSafe_def thetaBeforeClamp_def)

lemma newSpherical_phi:
  "safeEPS \<le> phi (newSpherical s) \<and> phi (newSpherical s) \<le> pi - safeEPS"
proof -
  have "safeEPS \<le> pi - safeEPS" using pi_ge_two by (simp add: safeEPS_def)
  then show ?thesis by (simp add: newSpherical_def Let_def makeSafe_def)
qed

section \<open>The controller of the application\<close>

lemma sqrt25: "sqrt 25 = 5"
  using real_sqrt_abs[of 5] by simp

lemma setFromUnitVectors_y: "setFromUnitVectors (Vector3 0 1 0) (Vector3 0 1 0) = Quaternion 0 0 0 1"
  by (simp add: setFromUnitVectors_def dotV_def numberEPSILON_def normalizeQ_def Let_def)

lemma applyQuaternion_identity: "applyQuaternion v (Quaternion 0 0 0 1) = v"
  by (simp add: applyQuaternion_def)

lemma invert_identity: "invert (Quaternion 0 0 0 1) = Quaternion 0 0 0 1"
  by (simp add: invert_def)

lemma setFromVector3_z5: "setFromVector3 (Vector3 0 0 5) = Spherical 5 (pi / 2) 0"
  by (simp add: setFromVector3_def sqrt25 atan2_def)

lemma setFromSpherical_z: "setFromSpherical (Spherical r (pi / 2) 0) = Vector3 0 0 r"
  by (simp add: setFromSpherical_def)

lemma sphericalFromCamera_z5:
  assumes "position (object s) = Vector3 0 0 5" and "up (object s) = Vector3 0 1 0"
    and "target s = Vector3 0 0 0"
  shows "sphericalFromCamera s = Spherical 5 (pi / 2) 0"
  using assms
  by (simp add: sphericalFromCamera_def upQuat_def setFromUnitVectors_y subV_def
      applyQuaternion_identity setFromVector3_z5)

lemma atRest_sphericalFromCamera:
  "atRest s \<Longrightarrow> sphericalFromCamera s = Spherical 5 (pi / 2) 0"
  by (simp add: atRest_def sphericalFromCamera_def upQuat_def setFromUnitVectors_y subV_def
      applyQuaternion_identity setFromVector3_z5)

lemma atRest_newSpherical: 
  assumes "atRest s" shows "newSpherical s = Spherical 5 (pi / 2) 0"
proof -
  have "safeEPS \<le> pi / 2" "pi / 2 \<le> pi - safeEPS" using pi_ge_two by (simp_all add: safeEPS_def)
  then show ?thesis using assms atRest_sphericalFromCamera[OF assms]
    by (simp add: newSpherical_def Let_def autoRotateStep_def applyDelta_def restrictTheta_def makeSafe_def
      clampLimit_def atRest_def)
qed

lemma atRest_newPosition: "atRest s \<Longrightarrow> newPosition s = Vector3 0 0 5"
  by (simp add: newPosition_def atRest_newSpherical setFromSpherical_z upQuat_def setFromUnitVectors_y
      invert_identity applyQuaternion_identity newTarget_def addV_def addScaledVector_def atRest_def)

lemma atRest_update: "atRest s \<Longrightarrow> atRest (snd (update L s))"
  apply (frule atRest_newPosition)
  apply (simp add: atRest_def update_def Let_def integrate_def dispatchEvent_def autoRotateStep_def
      newTarget_def addV_def addScaledVector_def multiplyScalar_def)
  done

lemma atRest_changed: "atRest s \<Longrightarrow> fst (update L s)"
  apply (frule atRest_newPosition)
  apply (simp add: update_def Let_def integrate_def autoRotateStep_def distanceToSquared_def EPS_def atRest_def)
  done

lemma atRest_new: "atRest (newOrbitControls L (perspectiveAt (Vector3 0 0 5)) screen)"
proof -
  have "atRest (fieldDefaults (perspectiveAt (Vector3 0 0 5)) screen)"
    by (simp add: atRest_def fieldDefaults_def perspectiveAt_def)
  from atRest_update[OF this, of L] show ?thesis
    by (simp add: newOrbitControls_def)
qed

lemma atRest_app: "atRest (appControls L)"
proof -
  have "atRest (fieldDefaults (perspectiveAt (Vector3 0 0 5)) screen)"
    by (simp add: atRest_def fieldDefaults_def perspectiveAt_def)
  from atRest_update[OF this, of L] show ?thesis
    by (simp add: appControls_def newOrbitControls_def atRest_def)
qed

lemma new_damping: "\<not> enableDamping (newOrbitControls L cam el)"
  by (simp add: newOrbitControls_def update_keeps fieldDefaults_def)







text \<open>
  What update returns depends on the state only through the camera it computes: the
  camera of the call before does not enter the test.
\<close>

lemma update_changed_iff:
  "fst (update L s) \<longleftrightarrow>
     zoomChanged s
     \<or> distanceToSquared (Vector3 0 0 0) (newPosition s) > EPS
     \<or> 8 * (1 - qw (L (newPosition s) (newTarget s) (up (object s)))) > EPS"
  by (simp add: update_def integrate_def Let_def dotQ_def autoRotateStep_def rotateLeft_def)

lemma update_keeps_last:
  "lastPosition (snd (update L s)) = lastPosition s"
  "lastQuaternion (snd (update L s)) = lastQuaternion s"
  by (simp_all add: update_def integrate_def Let_def dispatchEvent_def autoRotateStep_def
      rotateLeft_def)

text \<open>
  Claim C1, which the code does not meet. The claim: a second call of update with nothing
  pending dispatches no change event and returns false. The code, for the controller of
  the application (a perspective camera at (0, 0, 5), damping enabled): after one call of
  update nothing is pending (no rotation delta, no pan offset, scale 1, no changed zoom),
  and the next call returns true and dispatches one more change event. The test compares
  the camera with the zero vector and the identity rotation of its fresh
  \<open>lastPosition\<close> and \<open>lastQuaternion\<close>, not with the camera of the call before.
\<close>

theorem second_update_reports_change:
  "phi (sphericalDelta (snd (update L (appControls L)))) = 0
   \<and> theta (sphericalDelta (snd (update L (appControls L)))) = 0
   \<and> panOffset (snd (update L (appControls L))) = Vector3 0 0 0
   \<and> scale (snd (update L (appControls L))) = 1
   \<and> \<not> zoomChanged (snd (update L (appControls L)))
   \<and> fst (update L (snd (update L (appControls L))))
   \<and> events (snd (update L (snd (update L (appControls L)))))
       = events (snd (update L (appControls L))) @ [''change'']"
proof -
  define s1 where "s1 = snd (update L (appControls L))"
  have r: "atRest s1" unfolding s1_def by (intro atRest_update atRest_app)
  have c: "fst (update L (appControls L))" by (intro atRest_changed atRest_app)
  then have z: "\<not> zoomChanged s1"
    by (simp add: s1_def update_def Let_def split: if_splits)
  have c2: "fst (update L s1)" using r by (rule atRest_changed)
  then have e: "events (snd (update L s1)) = events s1 @ [''change'']"
    by (simp add: update_def Let_def integrate_def dispatchEvent_def autoRotateStep_def rotateLeft_def
        split: if_splits)
  from r z c2 e show ?thesis
    unfolding s1_def by (simp add: atRest_def)
qed

section \<open>Distance\<close>
















































section \<open>Azimuth\<close>



lemma azimuthControls_theta: "thetaBeforeClamp (azimuthControls L a b angle) = angle"
proof -
  define s where "s = newOrbitControls L (perspectiveAt (Vector3 0 0 5)) screen"
  have r: "atRest s" unfolding s_def by (rule atRest_new)
  have nd: "\<not> enableDamping s" unfolding s_def by (rule new_damping)
  have sp: "sphericalFromCamera (azimuthControls L a b angle) = Spherical 5 (pi / 2) 0"
    using r by (intro sphericalFromCamera_z5)
      (simp_all add: azimuthControls_def s_def[symmetric] rotateLeft_def atRest_def)
  have d: "theta (sphericalDelta (azimuthControls L a b angle)) = angle"
    "\<not> enableDamping (azimuthControls L a b angle)" "\<not> autoRotate (azimuthControls L a b angle)"
    using r nd by (simp_all add: azimuthControls_def s_def[symmetric] rotateLeft_def atRest_def)
  show ?thesis
    by (simp add: thetaBeforeClamp_def sp applyDelta_def autoRotateStep_def d)
qed

lemma azimuthControls_limits:
  "minAzimuthAngle (azimuthControls L a b angle) = Fin a"
  "maxAzimuthAngle (azimuthControls L a b angle) = Fin b"
  by (simp_all add: azimuthControls_def rotateLeft_def)

lemma shiftLimit_small: "- 2 \<le> m \<Longrightarrow> m \<le> 2 \<Longrightarrow> shiftLimit m = m"
  using pi_ge_two by (simp add: shiftLimit_def)

lemma shiftLimit_range:
  assumes "- (3 * pi) \<le> m" and "m \<le> 3 * pi"
  shows "- pi \<le> shiftLimit m \<and> shiftLimit m \<le> pi"
  using assms by (simp add: shiftLimit_def twoPI_def)



text \<open>
  Claim C4, amended. With both limits finite, update shifts each limit once, by \<open>2\<pi>\<close>
  upwards when it is below \<open>-\<pi>\<close> and by \<open>2\<pi>\<close> downwards when it is above \<open>\<pi>\<close>, which
  brings a limit between \<open>-3\<pi>\<close> and \<open>3\<pi>\<close> into \<open>[-\<pi>, \<pi>]\<close>. If then \<open>min <= max\<close>, theta
  is clamped to \<open>[min, max]\<close>. Otherwise theta is set to \<open>max(min, theta)\<close> when it is
  above the midpoint \<open>(min + max) / 2\<close> and to \<open>min(max, theta)\<close> when it is not: an angle
  strictly between \<open>max\<close> and \<open>min\<close> goes to the nearer of the two, an angle outside stays.
\<close>

theorem azimuth_clamp:
  assumes "minAzimuthAngle s = Fin a" and "maxAzimuthAngle s = Fin b"
  shows "theta (spherical (snd (update L s))) =
           (if shiftLimit a \<le> shiftLimit b
            then max (shiftLimit a) (min (shiftLimit b) (thetaBeforeClamp s))
            else if thetaBeforeClamp s > (shiftLimit a + shiftLimit b) / 2
                 then max (shiftLimit a) (thetaBeforeClamp s)
                 else min (shiftLimit b) (thetaBeforeClamp s))
    \<and> (- (3 * pi) \<le> a \<and> a \<le> 3 * pi \<longrightarrow> - pi \<le> shiftLimit a \<and> shiftLimit a \<le> pi)
    \<and> (- (3 * pi) \<le> b \<and> b \<le> 3 * pi \<longrightarrow> - pi \<le> shiftLimit b \<and> shiftLimit b \<le> pi)
    \<and> (shiftLimit a \<le> shiftLimit b \<longrightarrow>
          shiftLimit a \<le> theta (spherical (snd (update L s)))
          \<and> theta (spherical (snd (update L s))) \<le> shiftLimit b)
    \<and> (shiftLimit b < shiftLimit a \<and> shiftLimit b < thetaBeforeClamp s
          \<and> thetaBeforeClamp s < shiftLimit a \<longrightarrow>
          theta (spherical (snd (update L s))) =
            (if thetaBeforeClamp s > (shiftLimit a + shiftLimit b) / 2
             then shiftLimit a else shiftLimit b)
          \<and> \<bar>theta (spherical (snd (update L s))) - thetaBeforeClamp s\<bar>
               \<le> \<bar>shiftLimit a - thetaBeforeClamp s\<bar>
          \<and> \<bar>theta (spherical (snd (update L s))) - thetaBeforeClamp s\<bar>
               \<le> \<bar>shiftLimit b - thetaBeforeClamp s\<bar>)
    \<and> (shiftLimit b < shiftLimit a
          \<and> (thetaBeforeClamp s \<le> shiftLimit b \<or> shiftLimit a \<le> thetaBeforeClamp s) \<longrightarrow>
          theta (spherical (snd (update L s))) = thetaBeforeClamp s)"
proof -
  define lo hi th where "lo = shiftLimit a" and "hi = shiftLimit b" and "th = thetaBeforeClamp s"
  have r: "theta (spherical (snd (update L s))) =
      (if lo \<le> hi then max lo (min hi th) else if th > (lo + hi) / 2 then max lo th else min hi th)"
    using assms by (simp add: update_spherical newSpherical_theta restrictTheta_def Let_def lo_def hi_def th_def)
  have n: "(- (3 * pi) \<le> a \<and> a \<le> 3 * pi \<longrightarrow> - pi \<le> lo \<and> lo \<le> pi)"
     "(- (3 * pi) \<le> b \<and> b \<le> 3 * pi \<longrightarrow> - pi \<le> hi \<and> hi \<le> pi)"
    using shiftLimit_range by (auto simp add: lo_def hi_def)
  show ?thesis
    unfolding lo_def[symmetric] hi_def[symmetric] th_def[symmetric] r
    using n by (auto simp add: max_def min_def abs_if field_simps)
qed

text \<open>
  The theorem at the wrap-around limits 3/2 and -3/2, with theta on either side of the
  midpoint and outside the excluded range, and at the limits -1 and 1.
\<close>

theorem azimuth_clamp_witness:
  "minAzimuthAngle (azimuthControls fixedLookAt (3 / 2) (- (3 / 2)) 1) = Fin (3 / 2)
   \<and> maxAzimuthAngle (azimuthControls fixedLookAt (3 / 2) (- (3 / 2)) 1) = Fin (- (3 / 2))
   \<and> - (3 * pi) \<le> 3 / 2 \<and> 3 / 2 \<le> 3 * pi
   \<and> shiftLimit (- (3 / 2)) < shiftLimit (3 / 2)
   \<and> shiftLimit (- (3 / 2)) < thetaBeforeClamp (azimuthControls fixedLookAt (3 / 2) (- (3 / 2)) 1)
   \<and> thetaBeforeClamp (azimuthControls fixedLookAt (3 / 2) (- (3 / 2)) 1) < shiftLimit (3 / 2)
   \<and> theta (spherical (snd (update fixedLookAt (azimuthControls fixedLookAt (3 / 2) (- (3 / 2)) 1))))
       = 3 / 2
   \<and> theta (spherical (snd (update fixedLookAt (azimuthControls fixedLookAt (3 / 2) (- (3 / 2)) (- 1)))))
       = - (3 / 2)
   \<and> theta (spherical (snd (update fixedLookAt (azimuthControls fixedLookAt (3 / 2) (- (3 / 2)) (7 / 4)))))
       = 7 / 4
   \<and> shiftLimit (- 1) \<le> shiftLimit 1
   \<and> theta (spherical (snd (update fixedLookAt (azimuthControls fixedLookAt (- 1) 1 4)))) = 1"
proof -
  have s: "shiftLimit (3 / 2) = 3 / 2" "shiftLimit (- (3 / 2)) = - (3 / 2)"
    "shiftLimit 1 = 1" "shiftLimit (- 1) = - 1"
    by (simp_all add: shiftLimit_small)
  have p: "- (3 * pi) \<le> 3 / 2" "3 / 2 \<le> 3 * pi"
    using pi_ge_two by simp_all
  note t = azimuthControls_theta azimuthControls_limits
  from azimuth_clamp[where s = "azimuthControls fixedLookAt (3 / 2) (- (3 / 2)) (1)" and a = "3 / 2" and b = "- (3 / 2)"
      and L = fixedLookAt, OF azimuthControls_limits]
    azimuth_clamp[where s = "azimuthControls fixedLookAt (3 / 2) (- (3 / 2)) (- 1)" and a = "3 / 2" and b = "- (3 / 2)"
      and L = fixedLookAt, OF azimuthControls_limits]
    azimuth_clamp[where s = "azimuthControls fixedLookAt (3 / 2) (- (3 / 2)) (7 / 4)" and a = "3 / 2" and b = "- (3 / 2)"
      and L = fixedLookAt, OF azimuthControls_limits]
    azimuth_clamp[where s = "azimuthControls fixedLookAt (- 1) (1) (4)" and a = "- 1" and b = "1"
      and L = fixedLookAt, OF azimuthControls_limits]
  show ?thesis
    using p by (simp add: t s)
qed

text \<open>
  Claim C4 as stated fails in the interval it gives for the limits: the limit \<open>-\<pi>\<close> is
  kept, and it is not in \<open>(-\<pi>, \<pi>]\<close>; the limit 13 is shifted once and stays above \<open>\<pi>\<close>.
\<close>

theorem shift_limit_counterexample:
  "minAzimuthAngle (azimuthControls fixedLookAt (- pi) 1 0) = Fin (- pi)
   \<and> shiftLimit (- pi) = - pi
   \<and> \<not> (- pi < shiftLimit (- pi) \<and> shiftLimit (- pi) \<le> pi)
   \<and> \<not> (- pi < shiftLimit 13 \<and> shiftLimit 13 \<le> pi)"
  using pi_less_4 pi_ge_two
  by (simp add: azimuthControls_limits shiftLimit_def twoPI_def)

section \<open>Reset\<close>




section \<open>Pointers\<close>

lemma spliceFirst_distinct:
  "distinct (map pointerId ps) \<Longrightarrow> i \<notin> pointerId ` set (spliceFirst i ps)"
  by (induction ps) auto

lemma twoFingers_pointers: "pointers (twoFingers L) = [finger 1, finger 2]"
  by (simp add: twoFingers_def addPointer_def appControls_def newOrbitControls_def update_def
      integrate_def Let_def dispatchEvent_def autoRotateStep_def fieldDefaults_def rotateLeft_def)

text \<open>
  Claim C6, amended. A pointer-up deregisters the pointer: its position is deleted and
  its first entry in \<open>pointers\<close> is removed, which leaves no entry of that identity when
  the identities are distinct. It stops listening when no pointer remains. It always
  dispatches \<open>end\<close> and sets the state to \<open>NONE\<close>, also while other pointers remain.
\<close>

theorem pointer_up_always_ends:
  "pointers (onPointerUp e s) = spliceFirst (pointerId e) (pointers s)
   \<and> pointerPositions (onPointerUp e s) (pointerId e) = None
   \<and> (distinct (map pointerId (pointers s)) \<longrightarrow>
        pointerId e \<notin> pointerId ` set (pointers (onPointerUp e s)))
   \<and> listening (onPointerUp e s) = (listening s \<and> pointers (onPointerUp e s) \<noteq> [])
   \<and> events (onPointerUp e s) = events s @ [''end'']
   \<and> state (onPointerUp e s) = NONE"
  using spliceFirst_distinct[of "pointers s" "pointerId e"]
  by (simp add: onPointerUp_def removePointer_def dispatchEvent_def Let_def)

text \<open>
  The theorem with two fingers down, the first of which is lifted.
\<close>

theorem pointer_up_always_ends_witness:
  "distinct (map pointerId (pointers (twoFingers fixedLookAt)))
   \<and> pointerId (finger 1) \<notin> pointerId ` set (pointers (onPointerUp (finger 1) (twoFingers fixedLookAt)))
   \<and> listening (onPointerUp (finger 1) (twoFingers fixedLookAt))
   \<and> state (onPointerUp (finger 1) (twoFingers fixedLookAt)) = NONE"
proof -
  note p = twoFingers_pointers[of fixedLookAt]
  have l: "listening (twoFingers fixedLookAt)" by (simp add: twoFingers_def)
  have h: "distinct (map pointerId (pointers (twoFingers fixedLookAt)))"
    by (simp add: p finger_def)
  from pointer_up_always_ends[of "finger 1" "twoFingers fixedLookAt"] h l p show ?thesis
    by (simp add: finger_def)
qed

text \<open>
  Claim C6 as stated fails: with two fingers down, lifting the first dispatches \<open>end\<close>
  and sets the state to \<open>NONE\<close> while the second is still registered and the listeners
  are still attached.
\<close>

theorem pointer_up_counterexample:
  "pointers (onPointerUp (finger 1) (twoFingers fixedLookAt)) = [finger 2]
   \<and> listening (onPointerUp (finger 1) (twoFingers fixedLookAt))
   \<and> events (onPointerUp (finger 1) (twoFingers fixedLookAt))
       = events (twoFingers fixedLookAt) @ [''end'']
   \<and> state (twoFingers fixedLookAt) = TOUCH_DOLLY_PAN
   \<and> state (onPointerUp (finger 1) (twoFingers fixedLookAt)) = NONE"
  by (simp add: onPointerUp_def removePointer_def dispatchEvent_def Let_def
      twoFingers_pointers finger_def)
     (simp add: twoFingers_def)

section \<open>Polar angle\<close>

text \<open>
  Claim C7. With the polar limits at exactly 0 and \<open>\<pi>\<close>, the angle phi that update stores
  is never 0 and never \<open>\<pi>\<close>, whatever the state in which update is called.
\<close>

theorem phi_never_at_pole:
  assumes "minPolarAngle s = 0" and "maxPolarAngle s = pi"
  shows "phi (spherical (snd (update L s))) \<noteq> 0 \<and> phi (spherical (snd (update L s))) \<noteq> pi"
  using newSpherical_phi[of s] by (auto simp add: update_spherical safeEPS_def)

text \<open>
  The theorem at the controller of the application, whose polar limits are the defaults.
\<close>

theorem phi_never_at_pole_witness:
  "minPolarAngle (appControls fixedLookAt) = 0 \<and> maxPolarAngle (appControls fixedLookAt) = pi
   \<and> phi (spherical (snd (update fixedLookAt (appControls fixedLookAt)))) \<noteq> 0
   \<and> phi (spherical (snd (update fixedLookAt (appControls fixedLookAt)))) \<noteq> pi"
proof -
  have h: "minPolarAngle (appControls fixedLookAt) = 0" "maxPolarAngle (appControls fixedLookAt) = pi"
    using atRest_app[of fixedLookAt] by (simp_all add: atRest_def)
  from phi_never_at_pole[OF h, of fixedLookAt] h show ?thesis by simp
qed

end
